theory Spec2Isabelle
  imports Main
begin

section \<open>Role model and sessions\<close>

text \<open>
  The Prisma enum \<^verbatim>\<open>UserRole\<close> has the three members \<^verbatim>\<open>ADMIN\<close>,
  \<^verbatim>\<open>MANAGER\<close> and \<^verbatim>\<open>USER\<close>. At run time a role is the string that
  spells the member, and the hook compares it with string literals, so the
  hook is modelled on strings and \<open>role_name\<close> gives the spelling of a member.
\<close>

datatype UserRole = ADMIN | MANAGER | USER

fun role_name :: "UserRole \<Rightarrow> string" where
  "role_name ADMIN = ''ADMIN''"
| "role_name MANAGER = ''MANAGER''"
| "role_name USER = ''USER''"

text \<open>
  The session provider answers with the session object or, when nobody is
  signed in, with \<^verbatim>\<open>null\<close>, which is \<open>None\<close> of \<open>Session option\<close>.
  Every session object carries its user, so \<^verbatim>\<open>session?.user\<close> is undefined
  only without a session. The user's \<^verbatim>\<open>role\<close> is read through the cast
  \<^verbatim>\<open>(user as { role?: string })\<close> and through \<^verbatim>\<open>user?.role\<close>: the field
  may be absent.
\<close>

record User =
  name :: string
  email :: string
  role :: "string option"

record Session =
  user :: User

section \<open>The hook useAuth\<close>

text \<open>\<^verbatim>\<open>session?.user\<close>: the user of the session, undefined without a session.\<close>

definition session_user :: "Session option \<Rightarrow> User option" where
  "session_user session = (case session of None \<Rightarrow> None | Some s \<Rightarrow> Some (user s))"

text \<open>
  \<^verbatim>\<open>const userRole = ((user as { role?: string })?.role as UserRole) || "USER"\<close>.
  The operator \<^verbatim>\<open>||\<close> takes its right operand when the left one is falsy:
  undefined (no user, or no role field) or the empty string.
\<close>

definition userRole :: "Session option \<Rightarrow> string" where
  "userRole session =
     (case session_user session of
        None \<Rightarrow> ''USER''
      | Some u \<Rightarrow>
          (case role u of
             None \<Rightarrow> ''USER''
           | Some r \<Rightarrow> if r = [] then ''USER'' else r))"

text \<open>The fields of the object the hook returns, each as a function of the session.\<close>

definition isAuthenticated :: "Session option \<Rightarrow> bool" where
  "isAuthenticated session = (session \<noteq> None)"

definition isAdmin :: "Session option \<Rightarrow> bool" where
  "isAdmin session = (userRole session = ''ADMIN'')"

definition isEditor :: "Session option \<Rightarrow> bool" where
  "isEditor session = (userRole session = ''MANAGER'')"

definition canManageContent :: "Session option \<Rightarrow> bool" where
  "canManageContent session =
     (userRole session = ''ADMIN'' \<or> userRole session = ''MANAGER'')"

text \<open>\<^verbatim>\<open>Array.prototype.includes\<close> on an array of strings.\<close>

fun array_includes :: "string list \<Rightarrow> string \<Rightarrow> bool" where
  "array_includes [] x = False"
| "array_includes (y # ys) x = (if y = x then True else array_includes ys x)"

definition editorPermissions :: "string list" where
  "editorPermissions =
     [''agenda:read'', ''agenda:create'', ''agenda:update'', ''agenda:delete'',
      ''profile:read_own'', ''profile:update_own'']"

definition userPermissions :: "string list" where
  "userPermissions = [''agenda:read'', ''profile:read_own'', ''profile:update_own'']"

text \<open>
  The closure \<^verbatim>\<open>hasPermission\<close> reads \<^verbatim>\<open>userRole\<close> from the hook's scope; here
  the role is its first argument.
\<close>

definition hasPermission :: "string \<Rightarrow> string \<Rightarrow> bool" where
  "hasPermission r permission =
     (if r = ''ADMIN'' then True
      else if r = ''MANAGER'' then array_includes editorPermissions permission
      else array_includes userPermissions permission)"

definition useAuth_hasPermission :: "Session option \<Rightarrow> string \<Rightarrow> bool" where
  "useAuth_hasPermission session permission = hasPermission (userRole session) permission"

section \<open>The allow-lists as the specification words them\<close>

definition USER_allow_list :: "string set" where
  "USER_allow_list = {''agenda:read'', ''profile:read_own'', ''profile:update_own''}"

definition MANAGER_allow_list :: "string set" where
  "MANAGER_allow_list =
     USER_allow_list \<union> {''agenda:create'', ''agenda:update'', ''agenda:delete''}"

section \<open>The route guard\<close>

text \<open>
  The middleware reads the request's URL and the session resolved from the
  request's headers, and answers with a redirect or lets the request through.
\<close>

record URL =
  origin :: string
  pathname :: string

record NextRequest =
  nextUrl :: URL

datatype NextResponse = Redirect URL | Next

text \<open>\<^verbatim>\<open>String.prototype.startsWith\<close>.\<close>

fun startsWith :: "string \<Rightarrow> string \<Rightarrow> bool" where
  "startsWith s [] = True"
| "startsWith [] (c # cs) = False"
| "startsWith (x # xs) (c # cs) = (if x = c then startsWith xs cs else False)"

text \<open>
  With value semantics \<^verbatim>\<open>req.nextUrl.clone()\<close> is the URL itself and the
  assignment to \<^verbatim>\<open>url.pathname\<close> is a record update of the copy.
\<close>

definition middleware :: "NextRequest \<Rightarrow> Session option \<Rightarrow> NextResponse" where
  "middleware req session =
     (case session_user session of
        None \<Rightarrow> Redirect ((nextUrl req)\<lparr>pathname := ''/login''\<rparr>)
      | Some u \<Rightarrow>
          (let userRole = role u in
           if startsWith (pathname (nextUrl req)) ''/admin'' then
             (if userRole \<noteq> Some ''ADMIN'' \<and> userRole \<noteq> Some ''MANAGER''
              then Redirect ((nextUrl req)\<lparr>pathname := ''/''\<rparr>)
              else Next)
           else Next))"

text \<open>Only \<^verbatim>\<open>NextResponse.next()\<close> hands the request on to the page.\<close>

definition reaches_page_handler :: "NextResponse \<Rightarrow> bool" where
  "reaches_page_handler r = (case r of Next \<Rightarrow> True | Redirect u \<Rightarrow> False)"

subsection \<open>The same middleware over a store of URL objects\<close>

text \<open>
  URL objects are mutable and shared by reference. The store is the list of
  the URL objects allocated so far, a reference is a position in it.
  \<open>clone\<close> allocates a copy at the end, \<open>set_pathname\<close> writes one field
  of one object. \<^verbatim>\<open>NextResponse.redirect(url)\<close> takes the URL as it is at
  the time of the call.
\<close>

type_synonym store = "URL list"

definition clone :: "store \<Rightarrow> nat \<Rightarrow> nat \<times> store" where
  "clone h a = (length h, h @ [h ! a])"

definition set_pathname :: "store \<Rightarrow> nat \<Rightarrow> string \<Rightarrow> store" where
  "set_pathname h a p = h[a := (h ! a)\<lparr>pathname := p\<rparr>]"

definition middleware_store ::
  "store \<Rightarrow> nat \<Rightarrow> Session option \<Rightarrow> NextResponse \<times> store" where
  "middleware_store h nextUrl_ref session =
     (case session_user session of
        None \<Rightarrow>
          (let (url, h1) = clone h nextUrl_ref;
               h2 = set_pathname h1 url ''/login''
           in (Redirect (h2 ! url), h2))
      | Some u \<Rightarrow>
          (let userRole = role u in
           if startsWith (pathname (h ! nextUrl_ref)) ''/admin'' then
             (if userRole \<noteq> Some ''ADMIN'' \<and> userRole \<noteq> Some ''MANAGER''
              then
                (let (url, h1) = clone h nextUrl_ref;
                     h2 = set_pathname h1 url ''/''
                 in (Redirect (h2 ! url), h2))
              else (Next, h))
           else (Next, h)))"

subsection \<open>The hook with exceptions and a store of arrays\<close>

text \<open>
  A member access \<^verbatim>\<open>o.f\<close> throws a TypeError when \<^verbatim>\<open>o\<close> is null or
  undefined; the optional chain \<^verbatim>\<open>o?.f\<close> gives undefined there. The field
  itself may be absent, so reading it gives an optional value.
\<close>

datatype js_error = TypeError

definition member :: "'o option \<Rightarrow> ('o \<Rightarrow> 'v option) \<Rightarrow> js_error + 'v option" where
  "member obj f = (case obj of None \<Rightarrow> Inl TypeError | Some x \<Rightarrow> Inr (f x))"

definition optional_member ::
  "'o option \<Rightarrow> ('o \<Rightarrow> 'v option) \<Rightarrow> js_error + 'v option" where
  "optional_member obj f = (case obj of None \<Rightarrow> Inr None | Some x \<Rightarrow> member obj f)"

text \<open>
  An array literal allocates a new array object, and the method call
  \<^verbatim>\<open>xs.includes(x)\<close> goes through the reference: it throws when the reference
  holds no array. The store is the list of the arrays allocated so far.
\<close>

type_synonym arrays = "string list list"

definition new_array :: "arrays \<Rightarrow> string list \<Rightarrow> nat \<times> arrays" where
  "new_array h xs = (length h, h @ [xs])"

definition includes_call :: "arrays \<Rightarrow> nat \<Rightarrow> string \<Rightarrow> js_error + bool" where
  "includes_call h a x =
     (if a < length h then Inr (array_includes (h ! a) x) else Inl TypeError)"

text \<open>
  A call of \<^verbatim>\<open>hasPermission\<close>: the answer and the store after the call, or
  the exception.
\<close>

definition hasPermission_run ::
  "arrays \<Rightarrow> string \<Rightarrow> string \<Rightarrow> js_error + (bool \<times> arrays)" where
  "hasPermission_run h r permission =
     (if r = ''ADMIN'' then Inr (True, h)
      else if r = ''MANAGER'' then
        (let (editorPermissions_ref, h1) = new_array h editorPermissions in
         case includes_call h1 editorPermissions_ref permission of
           Inl e \<Rightarrow> Inl e
         | Inr b \<Rightarrow> Inr (b, h1))
      else
        (let (userPermissions_ref, h1) = new_array h userPermissions in
         case includes_call h1 userPermissions_ref permission of
           Inl e \<Rightarrow> Inl e
         | Inr b \<Rightarrow> Inr (b, h1)))"

text \<open>
  The hook's two reads, \<^verbatim>\<open>session?.user\<close> and \<^verbatim>\<open>user?.role\<close>, and the
  default through \<^verbatim>\<open>||\<close>; then a call of the closure it returns.
\<close>

definition userRole_run :: "Session option \<Rightarrow> js_error + string" where
  "userRole_run session =
     (case optional_member session (\<lambda>s. Some (user s)) of
        Inl e \<Rightarrow> Inl e
      | Inr u \<Rightarrow>
          (case optional_member u role of
             Inl e \<Rightarrow> Inl e
           | Inr r \<Rightarrow>
               Inr (case r of
                      None \<Rightarrow> ''USER''
                    | Some r \<Rightarrow> if r = [] then ''USER'' else r)))"

definition useAuth_hasPermission_run ::
  "arrays \<Rightarrow> Session option \<Rightarrow> string \<Rightarrow> js_error + (bool \<times> arrays)" where
  "useAuth_hasPermission_run h session permission =
     (case userRole_run session of
        Inl e \<Rightarrow> Inl e
      | Inr r \<Rightarrow> hasPermission_run h r permission)"

section \<open>The server guard and the DELETE handler\<close>

datatype guard_error = Unauthorized

text \<open>
  Modelled from the spec: \<^verbatim>\<open>requireAdmin\<close> of
  \<^verbatim>\<open>src/lib/auth-server-utils.ts\<close>, which is not among the sources. It
  resolves the session on the server and either returns the authenticated
  user or fails with the Unauthorized condition; the role it asks for is
  ADMIN.
\<close>

definition requireAdmin :: "Session option \<Rightarrow> guard_error + User" where
  "requireAdmin session =
     (case session of
        None \<Rightarrow> Inl Unauthorized
      | Some s \<Rightarrow>
          if role (user s) = Some ''ADMIN'' then Inr (user s) else Inl Unauthorized)"

text \<open>
  The agenda table maps an id to its row. \<^verbatim>\<open>prisma.agenda.delete\<close> removes
  the row with the given id and throws when there is none.
\<close>

type_synonym 'r table = "string \<rightharpoonup> 'r"

datatype prisma_error = RecordNotFound

definition prisma_delete :: "'r table \<Rightarrow> string \<Rightarrow> prisma_error + 'r table" where
  "prisma_delete db i =
     (case db i of None \<Rightarrow> Inl RecordNotFound | Some r \<Rightarrow> Inr (db(i := None)))"

datatype json_body = success_true | error_text string

record Response =
  status :: nat
  body :: json_body

text \<open>
  The handler: every exception of the \<^verbatim>\<open>try\<close> block, from the guard or
  from the deletion, ends in the \<^verbatim>\<open>catch\<close> block's 401 response. The
  result is the response and the table after the call.
\<close>

definition DELETE :: "Session option \<Rightarrow> string \<Rightarrow> 'r table \<Rightarrow> Response \<times> 'r table" where
  "DELETE session params_id db =
     (case requireAdmin session of
        Inl e \<Rightarrow> (\<lparr>status = 401, body = error_text ''Unauthorized''\<rparr>, db)
      | Inr u \<Rightarrow>
          (case prisma_delete db params_id of
             Inl e \<Rightarrow> (\<lparr>status = 401, body = error_text ''Unauthorized''\<rparr>, db)
           | Inr db' \<Rightarrow> (\<lparr>status = 200, body = success_true\<rparr>, db')))"

section \<open>The Project table\<close>

text \<open>
  The migration creates the table \<^verbatim>\<open>"Project"\<close>. A column has a name, a
  type, the \<^verbatim>\<open>NOT NULL\<close> flag and its default.
\<close>

datatype sql_type = TEXT | INTEGER | BOOLEAN | TIMESTAMP

datatype sql_value = VNull | VText string | VInt int | VBool bool | VTime nat

datatype sql_default = NO_DEFAULT | DEFAULT_value sql_value | DEFAULT_CURRENT_TIMESTAMP

record column =
  col_name :: string
  col_type :: sql_type
  col_not_null :: bool
  col_default :: sql_default

definition Project :: "column list" where
  "Project =
     [\<lparr>col_name = ''id'', col_type = TEXT, col_not_null = True, col_default = NO_DEFAULT\<rparr>,
      \<lparr>col_name = ''title'', col_type = TEXT, col_not_null = True, col_default = NO_DEFAULT\<rparr>,
      \<lparr>col_name = ''description'', col_type = TEXT, col_not_null = True,
        col_default = NO_DEFAULT\<rparr>,
      \<lparr>col_name = ''imageUrl'', col_type = TEXT, col_not_null = True,
        col_default = NO_DEFAULT\<rparr>,
      \<lparr>col_name = ''link'', col_type = TEXT, col_not_null = False, col_default = NO_DEFAULT\<rparr>,
      \<lparr>col_name = ''order'', col_type = INTEGER, col_not_null = False,
        col_default = NO_DEFAULT\<rparr>,
      \<lparr>col_name = ''isActive'', col_type = BOOLEAN, col_not_null = True,
        col_default = DEFAULT_value (VBool True)\<rparr>,
      \<lparr>col_name = ''createdAt'', col_type = TIMESTAMP, col_not_null = True,
        col_default = DEFAULT_CURRENT_TIMESTAMP\<rparr>,
      \<lparr>col_name = ''updatedAt'', col_type = TIMESTAMP, col_not_null = True,
        col_default = NO_DEFAULT\<rparr>]"

definition Project_pkey :: string where
  "Project_pkey = ''id''"

text \<open>
  The migration is the repository's part. What its declarations mean is the
  database's part, and only this much of it is written down here, as it is
  documented for PostgreSQL: a row the table holds, whichever statement wrote
  it, has the table's columns in their order; each value is \<^verbatim>\<open>NULL\<close> or a
  value of its column's type, an \<^verbatim>\<open>INTEGER\<close> being a signed integer of 32
  bits; and a column that is \<^verbatim>\<open>NOT NULL\<close> or the primary key holds no
  \<^verbatim>\<open>NULL\<close>. No statement is modelled, neither \<^verbatim>\<open>INSERT\<close> with its casts
  nor \<^verbatim>\<open>UPDATE\<close>.
\<close>

type_synonym row = "(string \<times> sql_value) list"

fun has_type :: "sql_value \<Rightarrow> sql_type \<Rightarrow> bool" where
  "has_type VNull t = True"
| "has_type (VText s) t = (t = TEXT)"
| "has_type (VInt i) t = (t = INTEGER \<and> - (2 ^ 31) \<le> i \<and> i < 2 ^ 31)"
| "has_type (VBool b) t = (t = BOOLEAN)"
| "has_type (VTime n) t = (t = TIMESTAMP)"

definition satisfies :: "string \<Rightarrow> column \<Rightarrow> string \<times> sql_value \<Rightarrow> bool" where
  "satisfies pkey c kv =
     (fst kv = col_name c
      \<and> has_type (snd kv) (col_type c)
      \<and> (if col_not_null c \<or> col_name c = pkey then snd kv \<noteq> VNull else True))"

definition conforms :: "column list \<Rightarrow> string \<Rightarrow> row \<Rightarrow> bool" where
  "conforms cols pkey r = list_all2 (satisfies pkey) cols r"

text \<open>
  The value a column holds in a new row when the statement that creates the
  row does not name the column: the declared default, evaluated at the time
  of the statement, and \<^verbatim>\<open>NULL\<close> when none is declared.
\<close>

definition omitted_value :: "nat \<Rightarrow> column \<Rightarrow> sql_value" where
  "omitted_value now c =
     (case col_default c of
        NO_DEFAULT \<Rightarrow> VNull
      | DEFAULT_value v \<Rightarrow> v
      | DEFAULT_CURRENT_TIMESTAMP \<Rightarrow> VTime now)"

definition field :: "row \<Rightarrow> string \<Rightarrow> sql_value" where
  "field r k = (case map_of r k of None \<Rightarrow> VNull | Some v \<Rightarrow> v)"

text \<open>
  The shape of a Project record as the specification words it: which fields
  hold a value and of which kind, an integer being one of 32 bits.
\<close>

fun is_text :: "sql_value \<Rightarrow> bool" where
  "is_text (VText s) = True"
| "is_text v = False"

fun is_int :: "sql_value \<Rightarrow> bool" where
  "is_int (VInt i) = (- (2 ^ 31) \<le> i \<and> i < 2 ^ 31)"
| "is_int v = False"

fun is_bool :: "sql_value \<Rightarrow> bool" where
  "is_bool (VBool b) = True"
| "is_bool v = False"

fun is_time :: "sql_value \<Rightarrow> bool" where
  "is_time (VTime n) = True"
| "is_time v = False"

definition Project_record :: "row \<Rightarrow> bool" where
  "Project_record r =
     (map fst r = [''id'', ''title'', ''description'', ''imageUrl'', ''link'', ''order'',
                   ''isActive'', ''createdAt'', ''updatedAt'']
      \<and> is_text (field r ''id'')
      \<and> is_text (field r ''title'')
      \<and> is_text (field r ''description'')
      \<and> is_text (field r ''imageUrl'')
      \<and> (field r ''link'' = VNull \<or> is_text (field r ''link''))
      \<and> (field r ''order'' = VNull \<or> is_int (field r ''order''))
      \<and> is_bool (field r ''isActive'')
      \<and> is_time (field r ''createdAt'')
      \<and> is_time (field r ''updatedAt''))"

section \<open>The project form's schema\<close>

text \<open>
  The values the form hands to the schema are JavaScript values. A string's
  length is the number of its code units, here of the characters of the list.
\<close>

datatype js_value = JUndefined | JNull | JString string | JBoolean bool | JNumber int

datatype issue_code = invalid_type | too_small nat | too_big nat

datatype string_check = MinLen nat | MaxLen nat

fun run_check :: "string \<Rightarrow> string_check \<Rightarrow> issue_code list" where
  "run_check s (MinLen n) = (if length s < n then [too_small n] else [])"
| "run_check s (MaxLen n) = (if length s > n then [too_big n] else [])"

text \<open>
  \<^verbatim>\<open>z.string()\<close> with its chain of checks: a value that is not a string is one
  issue, a string is tried against every check of the chain.
\<close>

definition z_string :: "string_check list \<Rightarrow> js_value \<Rightarrow> issue_code list" where
  "z_string checks v =
     (case v of JString s \<Rightarrow> concat (map (run_check s) checks) | _ \<Rightarrow> [invalid_type])"

definition z_boolean :: "js_value \<Rightarrow> issue_code list" where
  "z_boolean v = (case v of JBoolean b \<Rightarrow> [] | _ \<Rightarrow> [invalid_type])"

definition z_optional :: "(js_value \<Rightarrow> issue_code list) \<Rightarrow> js_value \<Rightarrow> issue_code list" where
  "z_optional schema v = (if v = JUndefined then [] else schema v)"

record FormValues =
  title :: js_value
  imageUrl :: js_value
  link :: js_value
  description :: js_value
  isActive :: js_value

text \<open>The issues of a submission, each with the field it is about.\<close>

definition formSchema :: "FormValues \<Rightarrow> (string \<times> issue_code) list" where
  "formSchema v =
     map (Pair ''title'') (z_string [MinLen 1, MinLen 3, MaxLen 100] (title v))
     @ map (Pair ''imageUrl'') (z_string [MinLen 1] (imageUrl v))
     @ map (Pair ''link'') (z_optional (z_string []) (link v))
     @ map (Pair ''description'') (z_string [MaxLen 500] (description v))
     @ map (Pair ''isActive'') (z_boolean (isActive v))"

text \<open>The resolver lets the submission through when the schema raises no issue.\<close>

definition accepts :: "FormValues \<Rightarrow> bool" where
  "accepts v = (formSchema v = [])"

section \<open>Properties of the hook\<close>

lemma array_includes_set: "array_includes xs x = (x \<in> set xs)"
  by (induction xs) auto

lemma set_userPermissions: "set userPermissions = USER_allow_list"
  by (simp add: userPermissions_def USER_allow_list_def)

lemma set_editorPermissions: "set editorPermissions = MANAGER_allow_list"
  by (auto simp: editorPermissions_def MANAGER_allow_list_def USER_allow_list_def)

lemma hasPermission_other:
  "r \<noteq> ''ADMIN'' \<Longrightarrow> r \<noteq> ''MANAGER'' \<Longrightarrow>
   hasPermission r p = (p \<in> USER_allow_list)"
  by (simp add: hasPermission_def array_includes_set set_userPermissions)

text \<open>
  C1. For each of the three roles and every permission string \<open>p\<close>:
  \<open>hasPermission\<close> is true for ADMIN whatever \<open>p\<close> is; for MANAGER it is true
  exactly when \<open>p\<close> is in USER's allow-list extended by the three agenda
  write permissions; for USER exactly when \<open>p\<close> is in USER's allow-list.
\<close>

theorem hasPermission_allow_lists:
  "hasPermission (role_name r) p =
     (case r of
        ADMIN \<Rightarrow> True
      | MANAGER \<Rightarrow> p \<in> MANAGER_allow_list
      | USER \<Rightarrow> p \<in> USER_allow_list)"
  by (cases r)
     (simp_all add: hasPermission_def array_includes_set set_userPermissions
        set_editorPermissions)

text \<open>
  C4, as the hook has it. For a session whose user has one of the three
  roles: \<open>isAdmin\<close> is true exactly for ADMIN, \<open>canManageContent\<close> exactly
  for MANAGER and ADMIN, and \<open>isEditor\<close> exactly for MANAGER, so \<open>isEditor\<close>
  is false for ADMIN.
\<close>

theorem facade_role_predicates:
  assumes "role (user s) = Some (role_name r)"
  shows "isAdmin (Some s) = (r = ADMIN)
         \<and> canManageContent (Some s) = (r = MANAGER \<or> r = ADMIN)
         \<and> isEditor (Some s) = (r = MANAGER)"
  using assms
  by (cases r)
     (simp_all add: isAdmin_def canManageContent_def isEditor_def userRole_def
        session_user_def)

theorem facade_role_predicates_witness:
  "isAdmin (Some \<lparr>user = \<lparr>name = ''Eva'', email = ''eva@site'', role = Some ''ADMIN''\<rparr>\<rparr>)
   \<and> canManageContent
        (Some \<lparr>user = \<lparr>name = ''Eva'', email = ''eva@site'', role = Some ''ADMIN''\<rparr>\<rparr>)
   \<and> \<not> isEditor (Some \<lparr>user = \<lparr>name = ''Eva'', email = ''eva@site'', role = Some ''ADMIN''\<rparr>\<rparr>)"
  using facade_role_predicates [of
      "\<lparr>user = \<lparr>name = ''Eva'', email = ''eva@site'', role = Some ''ADMIN''\<rparr>\<rparr>" ADMIN]
  by simp

text \<open>
  C4 as stated fails: for a session with role ADMIN \<open>isEditor\<close> is false,
  though the role is MANAGER or ADMIN.
\<close>

theorem isEditor_alias_counterexample:
  "\<not> (isEditor (Some \<lparr>user = \<lparr>name = ''Eva'', email = ''eva@site'', role = Some ''ADMIN''\<rparr>\<rparr>)
        = (userRole (Some \<lparr>user = \<lparr>name = ''Eva'', email = ''eva@site'', role = Some ''ADMIN''\<rparr>\<rparr>)
             = ''MANAGER''
           \<or> userRole (Some \<lparr>user = \<lparr>name = ''Eva'', email = ''eva@site'', role = Some ''ADMIN''\<rparr>\<rparr>)
             = ''ADMIN''))"
  by (simp add: isEditor_def userRole_def session_user_def)

text \<open>
  C5. Every permission that \<open>hasPermission\<close> grants to USER it grants to
  MANAGER as well.
\<close>

theorem USER_permissions_granted_to_MANAGER:
  "hasPermission ''USER'' p \<Longrightarrow> hasPermission ''MANAGER'' p"
  by (auto simp: hasPermission_def array_includes_set set_userPermissions
        set_editorPermissions MANAGER_allow_list_def)

theorem USER_permissions_granted_to_MANAGER_witness:
  "hasPermission ''USER'' ''agenda:read'' \<and> hasPermission ''MANAGER'' ''agenda:read''"
  using USER_permissions_granted_to_MANAGER [of "''agenda:read''"]
  by (simp add: hasPermission_def userPermissions_def)

text \<open>
  C6. When there is a session and its user has no role field, the hook's
  role is USER: \<open>isAdmin\<close> and \<open>canManageContent\<close> are false and
  \<open>hasPermission\<close> grants exactly USER's allow-list.
\<close>

theorem role_absent_defaults_to_USER:
  assumes "role (user s) = None"
  shows "userRole (Some s) = ''USER''
         \<and> \<not> isAdmin (Some s)
         \<and> \<not> canManageContent (Some s)
         \<and> useAuth_hasPermission (Some s) p = (p \<in> USER_allow_list)"
  using assms
  by (simp add: userRole_def session_user_def isAdmin_def canManageContent_def
        useAuth_hasPermission_def hasPermission_other)

theorem role_absent_defaults_to_USER_witness:
  "userRole (Some \<lparr>user = \<lparr>name = ''Noa'', email = ''noa@site'', role = None\<rparr>\<rparr>) = ''USER''
   \<and> useAuth_hasPermission
        (Some \<lparr>user = \<lparr>name = ''Noa'', email = ''noa@site'', role = None\<rparr>\<rparr>) ''agenda:read''
   \<and> \<not> useAuth_hasPermission
        (Some \<lparr>user = \<lparr>name = ''Noa'', email = ''noa@site'', role = None\<rparr>\<rparr>) ''agenda:delete''"
  using
    role_absent_defaults_to_USER [of
      "\<lparr>user = \<lparr>name = ''Noa'', email = ''noa@site'', role = None\<rparr>\<rparr>" "''agenda:read''"]
    role_absent_defaults_to_USER [of
      "\<lparr>user = \<lparr>name = ''Noa'', email = ''noa@site'', role = None\<rparr>\<rparr>" "''agenda:delete''"]
  by (simp add: USER_allow_list_def)

text \<open>
  C7. When the user's role is a string other than \<^verbatim>\<open>"ADMIN"\<close> and
  \<^verbatim>\<open>"MANAGER"\<close>, the empty string among them, \<open>hasPermission\<close> is true
  exactly on the three permissions of USER, and \<open>isAdmin\<close>, \<open>isEditor\<close>
  and \<open>canManageContent\<close> are false.
\<close>

theorem unknown_role_least_privilege:
  assumes "role (user s) = Some r" and "r \<noteq> ''ADMIN''" and "r \<noteq> ''MANAGER''"
  shows "useAuth_hasPermission (Some s) p
           = (p \<in> {''agenda:read'', ''profile:read_own'', ''profile:update_own''})
         \<and> \<not> isAdmin (Some s)
         \<and> \<not> isEditor (Some s)
         \<and> \<not> canManageContent (Some s)"
proof -
  have "userRole (Some s) \<noteq> ''ADMIN''" and "userRole (Some s) \<noteq> ''MANAGER''"
    using assms by (simp_all add: userRole_def session_user_def)
  then show ?thesis
    by (simp add: useAuth_hasPermission_def hasPermission_other USER_allow_list_def
          isAdmin_def isEditor_def canManageContent_def)
qed

theorem unknown_role_least_privilege_witness:
  "useAuth_hasPermission
      (Some \<lparr>user = \<lparr>name = ''Lia'', email = ''lia@site'', role = Some []\<rparr>\<rparr>) ''profile:read_own''
   \<and> \<not> useAuth_hasPermission
      (Some \<lparr>user = \<lparr>name = ''Lia'', email = ''lia@site'', role = Some ''GUEST''\<rparr>\<rparr>) ''agenda:create''
   \<and> \<not> canManageContent
      (Some \<lparr>user = \<lparr>name = ''Lia'', email = ''lia@site'', role = Some ''GUEST''\<rparr>\<rparr>)"
  using
    unknown_role_least_privilege [of
      "\<lparr>user = \<lparr>name = ''Lia'', email = ''lia@site'', role = Some []\<rparr>\<rparr>" "[]"
      "''profile:read_own''"]
    unknown_role_least_privilege [of
      "\<lparr>user = \<lparr>name = ''Lia'', email = ''lia@site'', role = Some ''GUEST''\<rparr>\<rparr>" "''GUEST''"
      "''agenda:create''"]
  by simp

section \<open>Properties of the route guard\<close>

text \<open>
  C2. For every request and session: without a session the middleware
  redirects to \<^verbatim>\<open>/login\<close> and the page is not reached; with a session, a path
  that starts with \<^verbatim>\<open>/admin\<close> and a role that is neither MANAGER nor ADMIN it
  redirects to \<^verbatim>\<open>/\<close> and the page is not reached; in every other case the
  request goes on to the page.
\<close>

theorem middleware_route_guard:
  "(session = None \<longrightarrow>
      middleware req session = Redirect ((nextUrl req)\<lparr>pathname := ''/login''\<rparr>)
      \<and> \<not> reaches_page_handler (middleware req session))
   \<and> (\<forall>s. session = Some s
          \<and> startsWith (pathname (nextUrl req)) ''/admin''
          \<and> role (user s) \<noteq> Some ''MANAGER'' \<and> role (user s) \<noteq> Some ''ADMIN'' \<longrightarrow>
      middleware req session = Redirect ((nextUrl req)\<lparr>pathname := ''/''\<rparr>)
      \<and> \<not> reaches_page_handler (middleware req session))
   \<and> (\<forall>s. session = Some s
          \<and> \<not> (startsWith (pathname (nextUrl req)) ''/admin''
               \<and> role (user s) \<noteq> Some ''MANAGER'' \<and> role (user s) \<noteq> Some ''ADMIN'') \<longrightarrow>
      middleware req session = Next
      \<and> reaches_page_handler (middleware req session))"
  by (auto simp: middleware_def session_user_def reaches_page_handler_def Let_def)

theorem middleware_route_guard_witness:
  "middleware \<lparr>nextUrl = \<lparr>origin = ''https://site'', pathname = ''/admin/projects''\<rparr>\<rparr> None
     = Redirect \<lparr>origin = ''https://site'', pathname = ''/login''\<rparr>
   \<and> middleware \<lparr>nextUrl = \<lparr>origin = ''https://site'', pathname = ''/admin/projects''\<rparr>\<rparr>
        (Some \<lparr>user = \<lparr>name = ''Ana'', email = ''ana@site'', role = Some ''USER''\<rparr>\<rparr>)
     = Redirect \<lparr>origin = ''https://site'', pathname = ''/''\<rparr>
   \<and> middleware \<lparr>nextUrl = \<lparr>origin = ''https://site'', pathname = ''/admin/projects''\<rparr>\<rparr>
        (Some \<lparr>user = \<lparr>name = ''Rui'', email = ''rui@site'', role = Some ''MANAGER''\<rparr>\<rparr>)
     = Next"
  using
    middleware_route_guard [of None
      "\<lparr>nextUrl = \<lparr>origin = ''https://site'', pathname = ''/admin/projects''\<rparr>\<rparr>"]
    middleware_route_guard [of
      "Some \<lparr>user = \<lparr>name = ''Ana'', email = ''ana@site'', role = Some ''USER''\<rparr>\<rparr>"
      "\<lparr>nextUrl = \<lparr>origin = ''https://site'', pathname = ''/admin/projects''\<rparr>\<rparr>"]
    middleware_route_guard [of
      "Some \<lparr>user = \<lparr>name = ''Rui'', email = ''rui@site'', role = Some ''MANAGER''\<rparr>\<rparr>"
      "\<lparr>nextUrl = \<lparr>origin = ''https://site'', pathname = ''/admin/projects''\<rparr>\<rparr>"]
  by simp

lemma middleware_store_value:
  assumes "a < length h"
  shows "fst (middleware_store h a session) = middleware \<lparr>nextUrl = h ! a\<rparr> session"
  using assms
  by (simp add: middleware_store_def middleware_def clone_def set_pathname_def
        nth_append Let_def split: option.splits)

lemma middleware_store_extends:
  assumes "a < length h"
  shows "\<exists>new. snd (middleware_store h a session) = h @ new"
  using assms
  by (simp add: middleware_store_def clone_def set_pathname_def nth_append Let_def
        split: option.splits)

lemma hasPermission_run_value:
  "hasPermission_run hs r p =
     Inr (hasPermission r p,
          if r = ''ADMIN'' then hs
          else if r = ''MANAGER'' then hs @ [editorPermissions]
          else hs @ [userPermissions])"
  by (simp add: hasPermission_run_def hasPermission_def new_array_def includes_call_def
        nth_append)

lemma userRole_run_value: "userRole_run session = Inr (userRole session)"
  by (cases session)
     (simp_all add: userRole_run_def userRole_def session_user_def optional_member_def
        member_def)

text \<open>
  C8. Over the store of URL objects, with the request's URL allocated: the
  middleware's answer is the value of \<open>middleware\<close> at the request's URL
  and the session; a second call on the store the first one left gives the
  same answer; and both calls leave every object that was there as it was
  (they only allocate the clone). A call of \<open>hasPermission\<close>, for every
  role string, permission string and store of arrays, throws nothing and
  returns a boolean, the value of \<open>hasPermission\<close>; a second call on the
  store the first one left returns the same boolean; and both leave every
  array that was there as it was. The same holds of the hook followed by a
  call of its \<open>hasPermission\<close>, for every session, the absent one included.
\<close>

theorem guards_deterministic_stateless:
  assumes "a < length h"
  shows "(let (r1, h1) = middleware_store h a session;
              (r2, h2) = middleware_store h1 a session
          in r1 = middleware \<lparr>nextUrl = h ! a\<rparr> session
             \<and> r2 = r1
             \<and> take (length h) h1 = h
             \<and> take (length h) h2 = h)
         \<and> (\<exists>b hs1 hs2.
               hasPermission_run hs r p = Inr (b, hs1)
               \<and> hasPermission_run hs1 r p = Inr (b, hs2)
               \<and> b = hasPermission r p
               \<and> take (length hs) hs1 = hs
               \<and> take (length hs) hs2 = hs)
         \<and> (\<exists>b hs1 hs2.
               useAuth_hasPermission_run hs session' p = Inr (b, hs1)
               \<and> useAuth_hasPermission_run hs1 session' p = Inr (b, hs2)
               \<and> b = useAuth_hasPermission session' p
               \<and> take (length hs) hs1 = hs
               \<and> take (length hs) hs2 = hs)"
proof (intro conjI)
  obtain r1 h1 where c1: "middleware_store h a session = (r1, h1)"
    by (cases "middleware_store h a session")
  obtain r2 h2 where c2: "middleware_store h1 a session = (r2, h2)"
    by (cases "middleware_store h1 a session")
  from middleware_store_extends [OF assms, of session] c1
  obtain new1 where h1: "h1 = h @ new1" by auto
  then have a1: "a < length h1" and same: "h1 ! a = h ! a"
    using assms by (simp_all add: nth_append)
  from middleware_store_extends [OF a1, of session] c2
  obtain new2 where h2: "h2 = h1 @ new2" by auto
  have v1: "r1 = middleware \<lparr>nextUrl = h ! a\<rparr> session"
    using middleware_store_value [OF assms, of session] c1 by simp
  have v2: "r2 = middleware \<lparr>nextUrl = h ! a\<rparr> session"
    using middleware_store_value [OF a1, of session] c2 same by simp
  show "let (r1, h1) = middleware_store h a session;
            (r2, h2) = middleware_store h1 a session
        in r1 = middleware \<lparr>nextUrl = h ! a\<rparr> session
           \<and> r2 = r1
           \<and> take (length h) h1 = h
           \<and> take (length h) h2 = h"
    using v1 v2 h1 h2 c1 c2 by simp
next
  show "\<exists>b hs1 hs2.
          hasPermission_run hs r p = Inr (b, hs1)
          \<and> hasPermission_run hs1 r p = Inr (b, hs2)
          \<and> b = hasPermission r p
          \<and> take (length hs) hs1 = hs
          \<and> take (length hs) hs2 = hs"
    by (simp add: hasPermission_run_value)
next
  show "\<exists>b hs1 hs2.
          useAuth_hasPermission_run hs session' p = Inr (b, hs1)
          \<and> useAuth_hasPermission_run hs1 session' p = Inr (b, hs2)
          \<and> b = useAuth_hasPermission session' p
          \<and> take (length hs) hs1 = hs
          \<and> take (length hs) hs2 = hs"
    by (simp add: useAuth_hasPermission_run_def userRole_run_value
          hasPermission_run_value useAuth_hasPermission_def)
qed

theorem guards_deterministic_stateless_witness:
  "middleware_store [\<lparr>origin = ''https://site'', pathname = ''/admin''\<rparr>] 0 None
     = (Redirect \<lparr>origin = ''https://site'', pathname = ''/login''\<rparr>,
        [\<lparr>origin = ''https://site'', pathname = ''/admin''\<rparr>,
         \<lparr>origin = ''https://site'', pathname = ''/login''\<rparr>])
   \<and> fst (middleware_store
        [\<lparr>origin = ''https://site'', pathname = ''/admin''\<rparr>,
         \<lparr>origin = ''https://site'', pathname = ''/login''\<rparr>] 0 None)
     = Redirect \<lparr>origin = ''https://site'', pathname = ''/login''\<rparr>
   \<and> hasPermission_run [] ''MANAGER'' ''agenda:delete'' = Inr (True, [editorPermissions])
   \<and> hasPermission_run [editorPermissions] ''MANAGER'' ''agenda:delete''
     = Inr (True, [editorPermissions, editorPermissions])
   \<and> useAuth_hasPermission_run [] None ''agenda:delete'' = Inr (False, [userPermissions])"
  using guards_deterministic_stateless [of 0
      "[\<lparr>origin = ''https://site'', pathname = ''/admin''\<rparr>]" None "[]" "''MANAGER''"
      "''agenda:delete''" None]
  by (simp add: middleware_store_def session_user_def clone_def set_pathname_def
        hasPermission_run_value useAuth_hasPermission_run_def userRole_run_value
        userRole_def hasPermission_def editorPermissions_def userPermissions_def)

section \<open>Properties of the DELETE handler\<close>

text \<open>
  C3. When there is no session, or the session's role is not ADMIN (MANAGER
  for one), \<open>requireAdmin\<close> fails with Unauthorized, the handler answers
  with status 401 and the table is the one it was called with: nothing is
  deleted.
\<close>

theorem DELETE_requireAdmin_unauthorized:
  assumes "\<forall>s. session = Some s \<longrightarrow> role (user s) \<noteq> Some ''ADMIN''"
  shows "requireAdmin session = Inl Unauthorized
         \<and> DELETE session params_id db
             = (\<lparr>status = 401, body = error_text ''Unauthorized''\<rparr>, db)"
proof -
  have "requireAdmin session = Inl Unauthorized"
    using assms by (cases session) (simp_all add: requireAdmin_def)
  then show ?thesis
    by (simp add: DELETE_def)
qed

theorem DELETE_requireAdmin_unauthorized_witness:
  "requireAdmin (Some \<lparr>user = \<lparr>name = ''Rui'', email = ''rui@site'', role = Some ''MANAGER''\<rparr>\<rparr>)
     = Inl Unauthorized
   \<and> DELETE (Some \<lparr>user = \<lparr>name = ''Rui'', email = ''rui@site'', role = Some ''MANAGER''\<rparr>\<rparr>)
        ''a1'' [''a1'' \<mapsto> (0::nat)]
     = (\<lparr>status = 401, body = error_text ''Unauthorized''\<rparr>, [''a1'' \<mapsto> (0::nat)])
   \<and> DELETE None ''a1'' [''a1'' \<mapsto> (0::nat)]
     = (\<lparr>status = 401, body = error_text ''Unauthorized''\<rparr>, [''a1'' \<mapsto> (0::nat)])"
  using
    DELETE_requireAdmin_unauthorized [of
      "Some \<lparr>user = \<lparr>name = ''Rui'', email = ''rui@site'', role = Some ''MANAGER''\<rparr>\<rparr>"
      "''a1''" "[''a1'' \<mapsto> (0::nat)]"]
    DELETE_requireAdmin_unauthorized [of None "''a1''" "[''a1'' \<mapsto> (0::nat)]"]
  by simp

section \<open>Properties of the Project table\<close>

lemma typed_nullable:
  "has_type v TEXT = (v = VNull \<or> is_text v)"
  "has_type v INTEGER = (v = VNull \<or> is_int v)"
  "has_type v BOOLEAN = (v = VNull \<or> is_bool v)"
  "has_type v TIMESTAMP = (v = VNull \<or> is_time v)"
  by (cases v; simp)+

lemma names_of_conforms: "conforms cols pkey r \<Longrightarrow> map fst r = map col_name cols"
  unfolding conforms_def
  by (induction cols r rule: list_all2_induct) (simp_all add: satisfies_def)

lemma names_Project:
  "map col_name Project =
     [''id'', ''title'', ''description'', ''imageUrl'', ''link'', ''order'',
      ''isActive'', ''createdAt'', ''updatedAt'']"
  by (simp add: Project_def)

lemma row_of_names:
  assumes "map fst r = [k1, k2, k3, k4, k5, k6, k7, k8, k9]"
  shows "\<exists>v1 v2 v3 v4 v5 v6 v7 v8 v9.
           r = [(k1, v1), (k2, v2), (k3, v3), (k4, v4), (k5, v5), (k6, v6), (k7, v7),
                (k8, v8), (k9, v9)]"
  using assms by (auto simp: map_eq_Cons_conv)

lemma conforms_Project_row:
  "conforms Project Project_pkey
     [(''id'', v1), (''title'', v2), (''description'', v3), (''imageUrl'', v4),
      (''link'', v5), (''order'', v6), (''isActive'', v7), (''createdAt'', v8),
      (''updatedAt'', v9)]
   = (is_text v1 \<and> is_text v2 \<and> is_text v3 \<and> is_text v4
      \<and> (v5 = VNull \<or> is_text v5) \<and> (v6 = VNull \<or> is_int v6)
      \<and> is_bool v7 \<and> is_time v8 \<and> is_time v9)"
  by (auto simp add: conforms_def Project_def Project_pkey_def satisfies_def
        typed_nullable)

lemma Project_record_row:
  "Project_record
     [(''id'', v1), (''title'', v2), (''description'', v3), (''imageUrl'', v4),
      (''link'', v5), (''order'', v6), (''isActive'', v7), (''createdAt'', v8),
      (''updatedAt'', v9)]
   = (is_text v1 \<and> is_text v2 \<and> is_text v3 \<and> is_text v4
      \<and> (v5 = VNull \<or> is_text v5) \<and> (v6 = VNull \<or> is_int v6)
      \<and> is_bool v7 \<and> is_time v8 \<and> is_time v9)"
  by (simp add: Project_record_def field_def)

lemma conforms_Project_record: "conforms Project Project_pkey r = Project_record r"
proof (cases "map fst r = map col_name Project")
  case True
  from row_of_names [OF True [unfolded names_Project]]
  obtain v1 v2 v3 v4 v5 v6 v7 v8 v9 where
    "r = [(''id'', v1), (''title'', v2), (''description'', v3), (''imageUrl'', v4),
          (''link'', v5), (''order'', v6), (''isActive'', v7), (''createdAt'', v8),
          (''updatedAt'', v9)]"
    by blast
  then show ?thesis
    by (simp only: conforms_Project_row Project_record_row)
next
  case False
  then have "\<not> conforms Project Project_pkey r"
    using names_of_conforms by blast
  moreover have "\<not> Project_record r"
    using False by (simp add: Project_record_def names_Project)
  ultimately show ?thesis by simp
qed

text \<open>
  C9. The rows the table can hold are exactly the Project records: \<^verbatim>\<open>id\<close>,
  \<^verbatim>\<open>title\<close>, \<^verbatim>\<open>description\<close> and \<^verbatim>\<open>imageUrl\<close> hold a text, \<^verbatim>\<open>link\<close> a
  text or \<^verbatim>\<open>NULL\<close>, \<^verbatim>\<open>order\<close> an integer or \<^verbatim>\<open>NULL\<close>, \<^verbatim>\<open>isActive\<close> a
  boolean, \<^verbatim>\<open>createdAt\<close> and \<^verbatim>\<open>updatedAt\<close> a timestamp. In a row created
  without naming them, \<^verbatim>\<open>isActive\<close> holds true, \<^verbatim>\<open>link\<close> and \<^verbatim>\<open>order\<close>
  hold \<^verbatim>\<open>NULL\<close> and \<^verbatim>\<open>createdAt\<close> the time of the creation.
\<close>

theorem Project_persisted_records:
  "conforms Project Project_pkey r = Project_record r
   \<and> (\<forall>c \<in> set Project.
         (col_name c = ''isActive'' \<longrightarrow> omitted_value now c = VBool True)
         \<and> (col_name c = ''link'' \<longrightarrow> omitted_value now c = VNull)
         \<and> (col_name c = ''order'' \<longrightarrow> omitted_value now c = VNull)
         \<and> (col_name c = ''createdAt'' \<longrightarrow> omitted_value now c = VTime now))"
  by (simp add: conforms_Project_record) (simp add: Project_def omitted_value_def)

theorem Project_persisted_records_witness:
  "conforms Project Project_pkey
     [(''id'', VText ''p1''), (''title'', VText ''Site''), (''description'', VText []),
      (''imageUrl'', VText ''/a.png''), (''link'', VNull), (''order'', VNull),
      (''isActive'', VBool True), (''createdAt'', VTime 7), (''updatedAt'', VTime 7)]
   \<and> \<not> conforms Project Project_pkey
     [(''id'', VText ''p1''), (''title'', VNull), (''description'', VText []),
      (''imageUrl'', VText ''/a.png''), (''link'', VNull), (''order'', VNull),
      (''isActive'', VBool True), (''createdAt'', VTime 7), (''updatedAt'', VTime 7)]
   \<and> omitted_value 7
        \<lparr>col_name = ''isActive'', col_type = BOOLEAN, col_not_null = True,
          col_default = DEFAULT_value (VBool True)\<rparr>
      = VBool True"
  using
    Project_persisted_records [of
      "[(''id'', VText ''p1''), (''title'', VText ''Site''), (''description'', VText []),
        (''imageUrl'', VText ''/a.png''), (''link'', VNull), (''order'', VNull),
        (''isActive'', VBool True), (''createdAt'', VTime 7), (''updatedAt'', VTime 7)]" 7]
    Project_persisted_records [of
      "[(''id'', VText ''p1''), (''title'', VNull), (''description'', VText []),
        (''imageUrl'', VText ''/a.png''), (''link'', VNull), (''order'', VNull),
        (''isActive'', VBool True), (''createdAt'', VTime 7), (''updatedAt'', VTime 7)]" 7]
  by (simp add: Project_record_row Project_def)

section \<open>Properties of the project form's schema\<close>

lemma title_ok:
  "(z_string [MinLen 1, MinLen 3, MaxLen 100] v = []) =
     (\<exists>t. v = JString t \<and> 3 \<le> length t \<and> length t \<le> 100)"
  by (cases v) (auto simp: z_string_def)

lemma imageUrl_ok: "(z_string [MinLen 1] v = []) = (\<exists>i. v = JString i \<and> i \<noteq> [])"
  by (cases v) (auto simp: z_string_def)

lemma link_ok:
  "(z_optional (z_string []) v = []) = (v = JUndefined \<or> (\<exists>l. v = JString l))"
  by (cases v) (auto simp: z_string_def z_optional_def)

lemma description_ok:
  "(z_string [MaxLen 500] v = []) = (\<exists>d. v = JString d \<and> length d \<le> 500)"
  by (cases v) (auto simp: z_string_def)

lemma isActive_ok: "(z_boolean v = []) = (\<exists>b. v = JBoolean b)"
  by (cases v) (auto simp: z_boolean_def)

lemma accepts_iff:
  "accepts v =
     ((\<exists>t. title v = JString t \<and> 3 \<le> length t \<and> length t \<le> 100)
      \<and> (\<exists>i. imageUrl v = JString i \<and> i \<noteq> [])
      \<and> (link v = JUndefined \<or> (\<exists>l. link v = JString l))
      \<and> (\<exists>d. description v = JString d \<and> length d \<le> 500)
      \<and> (\<exists>b. isActive v = JBoolean b))"
  by (simp only: accepts_def formSchema_def append_is_Nil_conv map_is_Nil_conv title_ok
        imageUrl_ok link_ok description_ok isActive_ok)

text \<open>
  C10. A submission the schema accepts has a title of 3 to 100 characters, a
  non-empty \<^verbatim>\<open>imageUrl\<close> and a description of at most 500 characters, and
  it is accepted as well with its \<^verbatim>\<open>link\<close> left out.
\<close>

theorem formSchema_accepts_only_valid:
  assumes "accepts v"
  shows "(\<exists>t. title v = JString t \<and> 3 \<le> length t \<and> length t \<le> 100)
         \<and> (\<exists>i. imageUrl v = JString i \<and> i \<noteq> [])
         \<and> (\<exists>d. description v = JString d \<and> length d \<le> 500)
         \<and> accepts (v\<lparr>link := JUndefined\<rparr>)"
  using assms by (simp add: accepts_iff)

theorem formSchema_accepts_only_valid_witness:
  "accepts \<lparr>title = JString ''Site'', imageUrl = JString ''/a.png'',
            link = JString ''https://site'', description = JString [],
            isActive = JBoolean True\<rparr>
   \<and> accepts \<lparr>title = JString ''Site'', imageUrl = JString ''/a.png'',
              link = JUndefined, description = JString [], isActive = JBoolean True\<rparr>"
proof -
  have a: "accepts \<lparr>title = JString ''Site'', imageUrl = JString ''/a.png'',
            link = JString ''https://site'', description = JString [],
            isActive = JBoolean True\<rparr>"
    by (simp add: accepts_def formSchema_def z_string_def z_optional_def z_boolean_def)
  show ?thesis
    using a formSchema_accepts_only_valid [OF a] by simp
qed

end
